theory Spec2Isabelle
  imports Main "HOL-Library.AList"
begin

section \<open>JavaScript values, errors and deferred results\<close>

text \<open>
  The values that cross the Web SQL boundary of \<^verbatim>\<open>ydn.db.WebSql\<close>. Numbers are
  IEEE doubles in the source; the model keeps them opaque (the type parameter \<open>'n\<close>) and
  takes the built-ins that compute with them as parameters. An object is the list of its
  own properties in insertion order; \<open>Inherited n\<close> is the member \<open>n\<close> that every object
  inherits from \<^verbatim>\<open>Object.prototype\<close> (a function, or the prototype itself), kept opaque.
\<close>

datatype 'n jsval =
    Undefined
  | Null
  | Bool bool
  | Num 'n
  | Str string
  | Arr "'n jsval list"
  | Obj "(string \<times> 'n jsval) list"
  | Inherited string

type_synonym 'n jsobj = "(string \<times> 'n jsval) list"

text \<open>
  The names a plain object inherits from \<^verbatim>\<open>Object.prototype\<close>: the members of
  ECMAScript 5 and the legacy members of the browsers that have Web SQL.
\<close>

definition object_prototype :: "string list" where
  "object_prototype =
     [''constructor'', ''toString'', ''toLocaleString'', ''valueOf'', ''hasOwnProperty'',
      ''isPrototypeOf'', ''propertyIsEnumerable'', ''__proto__'', ''__defineGetter__'',
      ''__defineSetter__'', ''__lookupGetter__'', ''__lookupSetter__'']"

text \<open>
  \<^verbatim>\<open>obj[name]\<close>: an own property, else the member inherited under that name, else
  \<^verbatim>\<open>undefined\<close>.
\<close>

definition get_prop :: "'n jsobj \<Rightarrow> string \<Rightarrow> 'n jsval" where
  "get_prop obj name =
     (case map_of obj name of
        Some v \<Rightarrow> v
      | None \<Rightarrow> if name \<in> set object_prototype then Inherited name else Undefined)"

text \<open>\<^verbatim>\<open>obj[name] = v\<close>: the own property is written or created.\<close>

definition set_prop :: "'n jsobj \<Rightarrow> string \<Rightarrow> 'n jsval \<Rightarrow> 'n jsobj" where
  "set_prop obj name v = AList.update name v obj"

text \<open>
  A property key that is \<^verbatim>\<open>undefined\<close> is converted to the string
  \<^verbatim>\<open>"undefined"\<close> by JavaScript, both in \<^verbatim>\<open>obj[key]\<close> and in string concatenation.
\<close>

definition js_string :: "string option \<Rightarrow> string" where
  "js_string s = (case s of None \<Rightarrow> ''undefined'' | Some t \<Rightarrow> t)"

text \<open>
  What the source throws or hands to an errback:
  \<^verbatim>\<open>new Error('Table ' + name + ' not found.')\<close>, the backend's \<^verbatim>\<open>SQLError\<close>, a failed
  \<^verbatim>\<open>goog.asserts\<close> assertion, the \<^verbatim>\<open>TypeError\<close> of a property read on
  \<^verbatim>\<open>null\<close>/\<^verbatim>\<open>undefined\<close>, the error of \<^verbatim>\<open>ydn.json.parse\<close>, and
  \<^verbatim>\<open>goog.async.Deferred\<close>'s error for a deferred fired twice.
\<close>

datatype error =
    TableNotFound string
  | SQLError string
  | AssertionError
  | TypeError
  | SyntaxError
  | AlreadyCalledError

text \<open>The state of a \<^verbatim>\<open>goog.async.Deferred\<close>: it fires once.\<close>

datatype 'n deferred = Pending | Resolved "'n jsval" | Rejected error

definition callback :: "'n deferred \<Rightarrow> 'n jsval \<Rightarrow> 'n deferred" where
  "callback d v = (case d of Pending \<Rightarrow> Resolved v | _ \<Rightarrow> d)"

definition errback :: "'n deferred \<Rightarrow> error \<Rightarrow> 'n deferred" where
  "errback d e = (case d of Pending \<Rightarrow> Rejected e | _ \<Rightarrow> d)"

text \<open>What an entry point hands back to its caller.\<close>

datatype 'n ret = Raise error | Return "'n deferred" | ReturnUndefined

section \<open>The schema catalog\<close>

datatype data_type = TEXT | INTEGER | FLOAT

record index_schema =
  index_name :: string
  index_type :: data_type
  index_unique :: bool

record store_schema =
  store_name :: string
  keyPath :: "string option"
  indexes :: "index_schema list"

record database_schema =
  version :: string
  schema_size :: nat
  stores :: "store_schema list"

text \<open>
  Modelled from the spec: the reserved column names \<^verbatim>\<open>ydn.db.DEFAULT_BLOB_COLUMN\<close> and
  \<^verbatim>\<open>ydn.db.DEFAULT_KEY_COLUMN\<close> are declared in \<^verbatim>\<open>db.js\<close>, which is not among the
  sources (``one column for the key, one column for the opaque payload'').
\<close>

definition DEFAULT_BLOB_COLUMN :: string where
  "DEFAULT_BLOB_COLUMN = ''_default_''"

definition DEFAULT_KEY_COLUMN :: string where
  "DEFAULT_KEY_COLUMN = ''_id_''"

text \<open>
  Modelled from the spec: \<^verbatim>\<open>schema.js\<close> is not among the sources; the catalog's
  interface is ``enumerate stores; resolve a store by name; quote identifiers; decide key
  strategy; enumerate a store's indexes with name/affinity/uniqueness''. A store that is
  not declared resolves to a falsy value (\<open>None\<close>).
\<close>

definition getStore :: "database_schema \<Rightarrow> string \<Rightarrow> store_schema option" where
  "getStore schema n = find (\<lambda>s. store_name s = n) (stores schema)"

definition hasStore :: "database_schema \<Rightarrow> string \<Rightarrow> bool" where
  "hasStore schema n = (getStore schema n \<noteq> None)"

definition hasIndex :: "store_schema \<Rightarrow> string \<Rightarrow> bool" where
  "hasIndex st n = (find (\<lambda>ix. index_name ix = n) (indexes st) \<noteq> None)"

text \<open>
  Modelled from the spec: \<^verbatim>\<open>addIndex(name)\<close> appends an index entry of that name to the
  store's index list (``added to the Store's index list if not already present''); the
  entry's affinity and uniqueness are not given by the spec, and text and non-unique are
  taken here.
\<close>

definition addIndex :: "store_schema \<Rightarrow> string \<Rightarrow> store_schema" where
  "addIndex st n =
     st\<lparr>indexes := indexes st @ [\<lparr>index_name = n, index_type = TEXT, index_unique = False\<rparr>]\<rparr>"

text \<open>Modelled from the spec: the catalog quotes identifiers, here in double quotes.\<close>

definition quote :: "string \<Rightarrow> string" where
  "quote s = [CHR 0x22] @ s @ [CHR 0x22]"

definition getQuotedName :: "store_schema \<Rightarrow> string" where
  "getQuotedName st = quote (store_name st)"

text \<open>
  Modelled from the spec: the quoted key path; the source relies on a falsy result for a
  store with no key path (\<^verbatim>\<open>schema.getQuotedKeyPath() || ydn.db.DEFAULT_KEY_COLUMN\<close>).
\<close>

definition getQuotedKeyPath :: "store_schema \<Rightarrow> string option" where
  "getQuotedKeyPath st = map_option quote (keyPath st)"

text \<open>
  Modelled from the spec: \<^verbatim>\<open>setKey(value, key)\<close> ``overlays the key field'', the field
  that the key path names.
\<close>

definition setKey :: "store_schema \<Rightarrow> 'n jsobj \<Rightarrow> 'n jsval \<Rightarrow> 'n jsobj" where
  "setKey st value key = (case keyPath st of None \<Rightarrow> value | Some kp \<Rightarrow> set_prop value kp key)"

text \<open>The keyword of a column affinity in a table definition.\<close>

definition type_sql :: "data_type \<Rightarrow> string" where
  "type_sql t = (case t of TEXT \<Rightarrow> ''TEXT'' | INTEGER \<Rightarrow> ''INTEGER'' | FLOAT \<Rightarrow> ''REAL'')"

section \<open>Collaborators outside the repository\<close>

text \<open>
  What \<^verbatim>\<open>getIndexedValues\<close> returns: the columns, the placeholders, the bound values and
  the key of one record.
\<close>

record 'n indexed_values =
  columns :: "string list"
  slots :: "string list"
  vals :: "'n jsval list"
  key_of :: "'n jsval"

text \<open>
  The functions the source calls and does not define, taken as parameters:
  \<^verbatim>\<open>ydn.json.parse\<close> (it throws on a malformed payload; a stored payload is a serialised
  record, so it parses to an object), the built-ins \<^verbatim>\<open>parseInt(x, 10)\<close>,
  \<^verbatim>\<open>parseFloat(x)\<close> and the string conversion \<^verbatim>\<open>x + ''\<close>, and the catalog's
  \<^verbatim>\<open>getIndexedValues\<close>.
\<close>

record 'n env =
  json_parse :: "'n jsval \<Rightarrow> error + 'n jsobj"
  parseInt :: "'n jsval \<Rightarrow> 'n jsval"
  parseFloat :: "'n jsval \<Rightarrow> 'n jsval"
  to_string :: "'n jsval \<Rightarrow> string"
  getIndexedValues :: "store_schema \<Rightarrow> 'n jsval \<Rightarrow> 'n indexed_values"

text \<open>
  One call of \<^verbatim>\<open>executeSql\<close>: the statement and its bound parameters. A transaction is
  modelled by what the backend answers to a statement: the rows of the result set, or the
  backend's error.
\<close>

type_synonym 'n sql_call = "string \<times> 'n jsval list"

type_synonym 'n transaction = "'n sql_call \<Rightarrow> error + 'n jsobj list"

section \<open>Decoding a row\<close>

text \<open>
  The loop of \<^verbatim>\<open>parseRow\<close> over \<^verbatim>\<open>table.indexes\<close>: the payload column is skipped, a
  column the row does not have is skipped, an integer or floating-point column is parsed,
  and the value is written onto the record.
\<close>

fun overlay :: "'n env \<Rightarrow> index_schema list \<Rightarrow> 'n jsobj \<Rightarrow> 'n jsobj \<Rightarrow> 'n jsobj" where
  "overlay E [] row value = value"
| "overlay E (index # rest) row value =
     (if index_name index = DEFAULT_BLOB_COLUMN then overlay E rest row value
      else if get_prop row (index_name index) = Undefined then overlay E rest row value
      else overlay E rest row
        (set_prop value (index_name index)
          (if index_type index = INTEGER then parseInt E (get_prop row (index_name index))
           else if index_type index = FLOAT then parseFloat E (get_prop row (index_name index))
           else get_prop row (index_name index))))"

text \<open>
  \<^verbatim>\<open>parseRow(table, row)\<close>. The row is an object (\<^verbatim>\<open>assertObject\<close> holds by its type).
  The payload is parsed first, then the key is read from \<^verbatim>\<open>row[table.keyPath]\<close> and
  asserted to be a string, then the key and the index columns are overlaid.
\<close>

definition parseRow :: "'n env \<Rightarrow> store_schema \<Rightarrow> 'n jsobj \<Rightarrow> error + 'n jsobj" where
  "parseRow E table row =
     (case json_parse E (get_prop row DEFAULT_BLOB_COLUMN) of
        Inl e \<Rightarrow> Inl e
      | Inr value \<Rightarrow>
          (case get_prop row (js_string (keyPath table)) of
             Str s \<Rightarrow> Inr (overlay E (indexes table) row (setKey table value (Str s)))
           | _ \<Rightarrow> Inl AssertionError))"

text \<open>
  \<^verbatim>\<open>getKeyFromRow(table, row)\<close>: \<^verbatim>\<open>row[table.keyPath || ydn.db.DEFAULT_KEY_COLUMN]\<close>;
  a key path that is \<^verbatim>\<open>undefined\<close> or the empty string is falsy.
\<close>

definition getKeyFromRow :: "store_schema \<Rightarrow> 'n jsobj \<Rightarrow> 'n jsval" where
  "getKeyFromRow table row =
     get_prop row
       (case keyPath table of
          None \<Rightarrow> DEFAULT_KEY_COLUMN
        | Some kp \<Rightarrow> if kp = [] then DEFAULT_KEY_COLUMN else kp)"

section \<open>Queries\<close>

text \<open>
  A query descriptor (\<^verbatim>\<open>ydn.db.Query\<close>, whose file is not among the sources): the store,
  the key range as the clause and parameters \<^verbatim>\<open>toWhereClause()\<close> compiles it to, and the
  optional \<^verbatim>\<open>continue\<close>, \<^verbatim>\<open>filter\<close>, \<^verbatim>\<open>map\<close> and \<^verbatim>\<open>reduce\<close> functions (\<open>None\<close>
  when the field is not a function).
\<close>

record 'n query =
  q_store :: string
  q_keyRange :: "(string \<times> 'n jsval list) option"
  q_continue :: "('n jsval \<Rightarrow> bool) option"
  q_filter :: "('n jsval \<Rightarrow> bool) option"
  q_map :: "('n jsval \<Rightarrow> 'n jsval) option"
  q_reduce :: "('n jsval \<Rightarrow> 'n jsval \<Rightarrow> nat \<Rightarrow> 'n jsval) option"

text \<open>\<^verbatim>\<open>result.push(value)\<close>; the result is an array whenever the query has no reduce.\<close>

definition push :: "'n jsval \<Rightarrow> 'n jsval \<Rightarrow> 'n jsval" where
  "push result v = (case result of Arr xs \<Rightarrow> Arr (xs @ [v]) | _ \<Rightarrow> result)"

text \<open>
  The body of the loop of \<^verbatim>\<open>fetch\<close>'s callback for one decoded row: the result after
  the row, under the filter, the map and the reduce of the query.
\<close>

definition collect :: "'n query \<Rightarrow> 'n jsval \<Rightarrow> nat \<Rightarrow> 'n jsval \<Rightarrow> 'n jsval" where
  "collect q result i value =
     (if (case q_filter q of None \<Rightarrow> True | Some f \<Rightarrow> f value)
      then (case q_reduce q of
              Some r \<Rightarrow> r result (case q_map q of None \<Rightarrow> value | Some m \<Rightarrow> m value) i
            | None \<Rightarrow> push result (case q_map q of None \<Rightarrow> value | Some m \<Rightarrow> m value))
      else result)"

text \<open>
  \<^verbatim>\<open>to_continue && (!goog.isDef(limit) || i < limit)\<close>, with \<^verbatim>\<open>to_continue\<close> computed
  from the decoded row before the filter is looked at.
\<close>

definition goes_on :: "'n query \<Rightarrow> int option \<Rightarrow> nat \<Rightarrow> 'n jsval \<Rightarrow> bool" where
  "goes_on q limit i value =
     ((case q_continue q of None \<Rightarrow> True | Some c \<Rightarrow> c value) \<and>
      (case limit of None \<Rightarrow> True | Some l \<Rightarrow> int i < l))"

text \<open>
  The loop \<^verbatim>\<open>for (var i = 0; i < results.rows.length; i++)\<close> from row \<open>i\<close> on, over the
  rows that are left. A row that does not decode throws out of the callback.
\<close>

fun scan ::
  "'n env \<Rightarrow> store_schema \<Rightarrow> 'n query \<Rightarrow> int option \<Rightarrow> 'n jsobj list \<Rightarrow> nat \<Rightarrow> 'n jsval
    \<Rightarrow> error + 'n jsval" where
  "scan E st q limit [] i result = Inr result"
| "scan E st q limit (row # rows) i result =
     (case parseRow E st row of
        Inl e \<Rightarrow> Inl e
      | Inr value \<Rightarrow>
          (if goes_on q limit i (Obj value)
           then scan E st q limit rows (Suc i) (collect q result i (Obj value))
           else Inr (collect q result i (Obj value))))"

text \<open>
  The success callback of \<^verbatim>\<open>fetch\<close>: the value it passes to \<^verbatim>\<open>d.callback\<close>, or the
  error it throws. The result starts as \<^verbatim>\<open>[]\<close>, or as \<^verbatim>\<open>undefined\<close> under a reduce.
\<close>

definition fetch_callback ::
  "'n env \<Rightarrow> store_schema \<Rightarrow> 'n query \<Rightarrow> int option \<Rightarrow> 'n jsobj list \<Rightarrow> error + 'n jsval" where
  "fetch_callback E st q limit rows =
     scan E st q limit rows 0 (case q_reduce q of None \<Rightarrow> Arr [] | Some r \<Rightarrow> Undefined)"

definition fetch_sql :: "store_schema \<Rightarrow> 'n query \<Rightarrow> 'n sql_call" where
  "fetch_sql st q =
     (case q_keyRange q of
        None \<Rightarrow> (''SELECT * FROM '' @ getQuotedName st, [])
      | Some (where_clause, params) \<Rightarrow>
          (''SELECT * FROM '' @ getQuotedName st @ '' WHERE '' @ ''('' @ where_clause @ '')'',
           params))"

text \<open>
  \<^verbatim>\<open>fetch(q, limit, offset)\<close>: the returned deferred as it ends, and the statements
  issued. A store that is not declared makes \<^verbatim>\<open>store.getQuotedName()\<close> throw. When the
  callback throws, the deferred stays pending.
\<close>

definition fetch ::
  "'n env \<Rightarrow> database_schema \<Rightarrow> 'n transaction \<Rightarrow> 'n query \<Rightarrow> int option \<Rightarrow> int option
    \<Rightarrow> 'n ret \<times> 'n sql_call list" where
  "fetch E schema t q limit offset =
     (case getStore schema (q_store q) of
        None \<Rightarrow> (Raise TypeError, [])
      | Some st \<Rightarrow>
          (Return
            (case t (fetch_sql st q) of
               Inl e \<Rightarrow> errback Pending e
             | Inr rows \<Rightarrow>
                 (case fetch_callback E st q limit rows of
                    Inl ex \<Rightarrow> Pending
                  | Inr result \<Rightarrow> callback Pending result)),
           [fetch_sql st q]))"

section \<open>Reading records\<close>

text \<open>
  What the private \<^verbatim>\<open>executeGet_\<close> and \<^verbatim>\<open>executePut_\<close> leave behind: the deferred they
  were given as it ends, the statements they passed to \<^verbatim>\<open>executeSql\<close>, and the exception
  that escaped their body, if one did.
\<close>

record 'n exec_result =
  dfd :: "'n deferred"
  issued :: "'n sql_call list"
  thrown :: "error option"

definition get_sql :: "store_schema \<Rightarrow> 'n jsval \<Rightarrow> 'n sql_call" where
  "get_sql table key =
     (if key \<noteq> Undefined
      then (''SELECT * FROM '' @ getQuotedName table @ '' WHERE '' @
              js_string (getQuotedKeyPath table) @ '' = ?'', [key])
      else (''SELECT * FROM '' @ getQuotedName table, []))"

text \<open>The loop that decodes every row of a result set; the first row that fails throws.\<close>

fun parse_rows :: "'n env \<Rightarrow> store_schema \<Rightarrow> 'n jsobj list \<Rightarrow> error + 'n jsval list" where
  "parse_rows E table [] = Inr []"
| "parse_rows E table (row # rows) =
     (case parseRow E table row of
        Inl e \<Rightarrow> Inl e
      | Inr v \<Rightarrow>
          (case parse_rows E table rows of
             Inl e \<Rightarrow> Inl e
           | Inr vs \<Rightarrow> Inr (Obj v # vs)))"

text \<open>
  The success callback of \<^verbatim>\<open>executeGet_\<close>: the value it passes to \<^verbatim>\<open>d.callback\<close>, or
  the error it throws.
\<close>

definition get_callback ::
  "'n env \<Rightarrow> store_schema \<Rightarrow> 'n jsval \<Rightarrow> 'n jsobj list \<Rightarrow> error + 'n jsval" where
  "get_callback E table key rows =
     (if key = Undefined
      then (case parse_rows E table rows of Inl e \<Rightarrow> Inl e | Inr arr \<Rightarrow> Inr (Arr arr))
      else (case rows of
              row # _ \<Rightarrow> (case parseRow E table row of Inl e \<Rightarrow> Inl e | Inr v \<Rightarrow> Inr (Obj v))
            | [] \<Rightarrow> Inr Undefined))"

text \<open>
  \<^verbatim>\<open>executeGet_(t, d, arg1, key)\<close>. For a store that is not declared the errback is
  called and the function goes on (there is no \<^verbatim>\<open>return\<close>): \<^verbatim>\<open>table.getQuotedName()\<close>
  then throws on the falsy \<^verbatim>\<open>table\<close>, before \<^verbatim>\<open>executeSql\<close> is reached.
\<close>

definition executeGet ::
  "'n env \<Rightarrow> database_schema \<Rightarrow> 'n transaction \<Rightarrow> 'n deferred \<Rightarrow> string \<Rightarrow> 'n jsval
    \<Rightarrow> 'n exec_result" where
  "executeGet E schema t d arg1 key =
     (case getStore schema arg1 of
        None \<Rightarrow>
          \<lparr>dfd = errback d (TableNotFound arg1), issued = [], thrown = Some TypeError\<rparr>
      | Some table \<Rightarrow>
          \<lparr>dfd =
             (case t (get_sql table key) of
                Inl e \<Rightarrow> errback d e
              | Inr rows \<Rightarrow>
                  (case get_callback E table key rows of
                     Inl ex \<Rightarrow> d
                   | Inr v \<Rightarrow> callback d v)),
           issued = [get_sql table key],
           thrown = None\<rparr>)"

text \<open>
  The arguments \<^verbatim>\<open>get\<close> tells apart with \<^verbatim>\<open>instanceof\<close>: a store name, a query, or a
  \<^verbatim>\<open>ydn.db.Key\<close>.
\<close>

record 'n db_key =
  key_store_name :: string
  key_id :: "'n jsval"

datatype 'n get_arg = StoreArg string | QueryArg "'n query" | KeyArg "'n db_key"

text \<open>
  The last branch of \<^verbatim>\<open>get\<close>: the store is named by a string. The deferred is
  returned at once; what \<^verbatim>\<open>executeGet_\<close> throws stays inside the transaction callback.
\<close>

definition get_by_name ::
  "'n env \<Rightarrow> database_schema \<Rightarrow> 'n transaction \<Rightarrow> string \<Rightarrow> 'n jsval
    \<Rightarrow> 'n ret \<times> 'n sql_call list" where
  "get_by_name E schema t arg1 key =
     (Return (dfd (executeGet E schema t Pending arg1 key)),
      issued (executeGet E schema t Pending arg1 key))"

text \<open>\<^verbatim>\<open>getByKey(key)\<close>: \<^verbatim>\<open>this.get(key.store_name, key.id + '')\<close>.\<close>

definition getByKey ::
  "'n env \<Rightarrow> database_schema \<Rightarrow> 'n transaction \<Rightarrow> 'n db_key \<Rightarrow> 'n ret \<times> 'n sql_call list" where
  "getByKey E schema t k =
     get_by_name E schema t (key_store_name k) (Str (to_string E (key_id k)))"

text \<open>\<^verbatim>\<open>get(arg1, key)\<close>.\<close>

definition get ::
  "'n env \<Rightarrow> database_schema \<Rightarrow> 'n transaction \<Rightarrow> 'n get_arg \<Rightarrow> 'n jsval
    \<Rightarrow> 'n ret \<times> 'n sql_call list" where
  "get E schema t arg1 key =
     (case arg1 of
        QueryArg q \<Rightarrow>
          (case fetch E schema t q None None of
             (Return fetch_df, ss) \<Rightarrow>
               (Return
                 (case fetch_df of
                    Pending \<Rightarrow> Pending
                  | Resolved v \<Rightarrow>
                      Resolved (case v of Arr (x # _) \<Rightarrow> x | _ \<Rightarrow> Undefined)
                  | Rejected e \<Rightarrow> Rejected e), ss)
           | r \<Rightarrow> r)
      | KeyArg k \<Rightarrow> getByKey E schema t k
      | StoreArg n \<Rightarrow> get_by_name E schema t n key)"

text \<open>\<^verbatim>\<open>getInTransaction(tx, store, id)\<close>: an exception of \<^verbatim>\<open>executeGet_\<close> reaches the caller.\<close>

definition getInTransaction ::
  "'n env \<Rightarrow> database_schema \<Rightarrow> 'n transaction \<Rightarrow> string \<Rightarrow> 'n jsval
    \<Rightarrow> 'n ret \<times> 'n sql_call list" where
  "getInTransaction E schema tx store key =
     (case thrown (executeGet E schema tx Pending store key) of
        Some e \<Rightarrow> (Raise e, issued (executeGet E schema tx Pending store key))
      | None \<Rightarrow>
          (Return (dfd (executeGet E schema tx Pending store key)),
           issued (executeGet E schema tx Pending store key)))"

section \<open>Writing records\<close>

text \<open>\<^verbatim>\<open>Array.prototype.join\<close>.\<close>

fun join :: "string \<Rightarrow> string list \<Rightarrow> string" where
  "join sep [] = []"
| "join sep [x] = x"
| "join sep (x # y # ys) = x @ sep @ join sep (y # ys)"

definition put_sql :: "store_schema \<Rightarrow> 'n indexed_values \<Rightarrow> 'n sql_call" where
  "put_sql table out =
     (''INSERT OR REPLACE INTO '' @ getQuotedName table @
        '' ('' @ join '', '' (columns out) @ '') '' @
        ''VALUES ('' @ join '', '' (slots out) @ '');'',
      vals out)"

text \<open>
  The callbacks of the statements of one \<^verbatim>\<open>executePut_\<close>, in the order the backend
  answers them. Each entry is a statement with its \<^verbatim>\<open>last\<close> flag and its key;
  \<open>arr_result\<close> collects the keys of an array put. A deferred that has fired keeps its
  state.
\<close>

fun put_callbacks ::
  "bool \<Rightarrow> 'n transaction \<Rightarrow> ('n sql_call \<times> bool \<times> 'n jsval) list \<Rightarrow> 'n jsval list
    \<Rightarrow> 'n deferred \<Rightarrow> 'n deferred" where
  "put_callbacks is_array t [] arr_result df = df"
| "put_callbacks is_array t ((call, is_last, key) # rest) arr_result df =
     (case t call of
        Inl e \<Rightarrow> put_callbacks is_array t rest arr_result (errback df e)
      | Inr rows \<Rightarrow>
          (if is_array
           then put_callbacks is_array t rest (arr_result @ [key])
                  (if is_last then callback df (Arr (arr_result @ [key])) else df)
           else put_callbacks is_array t rest arr_result (callback df key)))"

text \<open>
  \<^verbatim>\<open>executePut_(tx, df, store_name, obj)\<close>. The loop queues one statement per item
  (\<^verbatim>\<open>has_error\<close> is only set by a callback, after the loop has run).
\<close>

definition executePut ::
  "'n env \<Rightarrow> database_schema \<Rightarrow> 'n transaction \<Rightarrow> 'n deferred \<Rightarrow> string \<Rightarrow> 'n jsval
    \<Rightarrow> 'n exec_result" where
  "executePut E schema tx df store obj =
     (case getStore schema store of
        None \<Rightarrow> \<lparr>dfd = errback df (TableNotFound store), issued = [], thrown = None\<rparr>
      | Some table \<Rightarrow>
          (let arr = (case obj of Arr xs \<Rightarrow> xs | _ \<Rightarrow> [obj]);
               outs = map (getIndexedValues E table) arr
           in \<lparr>dfd =
                  put_callbacks (case obj of Arr xs \<Rightarrow> True | _ \<Rightarrow> False) tx
                    (map (\<lambda>(i, out). (put_sql table out, Suc i = length arr, key_of out))
                      (enumerate 0 outs))
                    [] df,
                issued = map (put_sql table) outs,
                thrown = None\<rparr>))"

text \<open>\<^verbatim>\<open>put(store_name, obj)\<close> and \<^verbatim>\<open>putInTransaction(tx, store, value)\<close>.\<close>

definition put ::
  "'n env \<Rightarrow> database_schema \<Rightarrow> 'n transaction \<Rightarrow> string \<Rightarrow> 'n jsval
    \<Rightarrow> 'n ret \<times> 'n sql_call list" where
  "put E schema t store obj =
     (Return (dfd (executePut E schema t Pending store obj)),
      issued (executePut E schema t Pending store obj))"

definition putInTransaction ::
  "'n env \<Rightarrow> database_schema \<Rightarrow> 'n transaction \<Rightarrow> string \<Rightarrow> 'n jsval
    \<Rightarrow> 'n ret \<times> 'n sql_call list" where
  "putInTransaction E schema tx store v =
     (Return (dfd (executePut E schema tx Pending store v)),
      issued (executePut E schema tx Pending store v))"

text \<open>\<^verbatim>\<open>clearInTransaction(tx, store, id)\<close>: the body is empty.\<close>

definition clearInTransaction ::
  "'n transaction \<Rightarrow> string \<Rightarrow> 'n jsval \<Rightarrow> 'n ret \<times> 'n sql_call list" where
  "clearInTransaction tx store key = (ReturnUndefined, [])"

section \<open>Clearing stores\<close>

text \<open>
  The private \<^verbatim>\<open>clear_(table_name, opt_key)\<close>: what it returns or throws, and the
  statement it issues. \<^verbatim>\<open>goog.asserts.assertObject(store)\<close> throws for a name that is not
  a declared store. Without a table name the statement is the empty string.
\<close>

definition clear_sql :: "store_schema option \<Rightarrow> 'n jsval \<Rightarrow> 'n sql_call" where
  "clear_sql store opt_key =
     (case store of
        None \<Rightarrow> ([], if opt_key \<noteq> Undefined then [opt_key] else [])
      | Some st \<Rightarrow>
          (if opt_key \<noteq> Undefined
           then (''DELETE FROM  '' @ getQuotedName st @ '' WHERE '' @
                   (case getQuotedKeyPath st of None \<Rightarrow> DEFAULT_KEY_COLUMN | Some k \<Rightarrow> k) @
                   '' = ?'', [opt_key])
           else (''DELETE FROM  '' @ getQuotedName st, [])))"

definition clear_private ::
  "database_schema \<Rightarrow> 'n transaction \<Rightarrow> string option \<Rightarrow> 'n jsval
    \<Rightarrow> (error + 'n deferred) \<times> 'n sql_call list" where
  "clear_private schema t table_name opt_key =
     (case table_name of
        Some n \<Rightarrow>
          (case getStore schema n of
             None \<Rightarrow> (Inl AssertionError, [])
           | Some st \<Rightarrow>
               (Inr (case t (clear_sql (Some st) opt_key) of
                       Inl e \<Rightarrow> errback Pending e
                     | Inr rows \<Rightarrow> callback Pending (Bool True)),
                [clear_sql (Some st) opt_key]))
      | None \<Rightarrow>
          (Inr (case t (clear_sql None opt_key) of
                  Inl e \<Rightarrow> errback Pending e
                | Inr rows \<Rightarrow> callback Pending (Bool True)),
           [clear_sql None opt_key]))"

text \<open>
  The loop \<^verbatim>\<open>for (var store in this.schema) dfs.push(this.clear_(store))\<close> over the
  property names it enumerates. An exception of \<^verbatim>\<open>clear_\<close> ends the loop and leaves
  \<^verbatim>\<open>clear\<close>; the statements of the calls before it have been handed to the backend.
\<close>

fun clear_each ::
  "database_schema \<Rightarrow> 'n transaction \<Rightarrow> string list
    \<Rightarrow> (error + 'n deferred list) \<times> 'n sql_call list" where
  "clear_each schema t [] = (Inr [], [])"
| "clear_each schema t (p # ps) =
     (case clear_private schema t (Some p) Undefined of
        (Inl e, ss) \<Rightarrow> (Inl e, ss)
      | (Inr d, ss) \<Rightarrow>
          (case clear_each schema t ps of
             (Inl e, ss') \<Rightarrow> (Inl e, ss @ ss')
           | (Inr ds, ss') \<Rightarrow> (Inr (d # ds), ss @ ss')))"

text \<open>
  Modelled from the spec: \<^verbatim>\<open>ydn.async.reduceAllTrue\<close> over a
  \<^verbatim>\<open>goog.async.DeferredList\<close> is not among the sources; the result is ``an overall
  success flag'': once every deferred has fired, whether all of them resolved with
  \<^verbatim>\<open>true\<close>.
\<close>

definition reduceAllTrue :: "'n deferred list \<Rightarrow> 'n deferred" where
  "reduceAllTrue dfs =
     (if list_ex (\<lambda>d. case d of Pending \<Rightarrow> True | _ \<Rightarrow> False) dfs then Pending
      else Resolved (Bool (list_all (\<lambda>d. case d of Resolved (Bool True) \<Rightarrow> True | _ \<Rightarrow> False) dfs)))"

text \<open>
  \<^verbatim>\<open>clear(opt_table, opt_key)\<close>. Without a store the loop runs over the enumerable
  property names of the schema object \<^verbatim>\<open>this.schema\<close>; the object is built in
  \<^verbatim>\<open>schema.js\<close>, so the names are the parameter \<open>schema_props\<close>, in enumeration order.
  \<^verbatim>\<open>websql.js\<close> itself reads the properties \<^verbatim>\<open>version\<close>, \<^verbatim>\<open>size\<close> and
  \<^verbatim>\<open>stores\<close> of that object.
\<close>

definition clear ::
  "database_schema \<Rightarrow> string list \<Rightarrow> 'n transaction \<Rightarrow> string option \<Rightarrow> 'n jsval
    \<Rightarrow> 'n ret \<times> 'n sql_call list" where
  "clear schema schema_props t opt_table opt_key =
     (case opt_table of
        Some n \<Rightarrow>
          (if \<not> hasStore schema n then (Raise (TableNotFound n), [])
           else (case clear_private schema t (Some n) opt_key of
                   (Inl e, ss) \<Rightarrow> (Raise e, ss)
                 | (Inr d, ss) \<Rightarrow> (Return d, ss)))
      | None \<Rightarrow>
          (case clear_each schema t schema_props of
             (Inl e, ss) \<Rightarrow> (Raise e, ss)
           | (Inr dfs, ss) \<Rightarrow> (Return (reduceAllTrue dfs), ss)))"

section \<open>Scoped transactions\<close>

text \<open>
  A scope token: a caller's object that \<^verbatim>\<open>runInTransaction\<close> writes the transaction
  into (\<^verbatim>\<open>key.tx = tx\<close>). The array \<^verbatim>\<open>keys\<close> is walked up to its first falsy element
  (\<open>None\<close>).
\<close>

record 't token =
  token_name :: string
  tx :: "'t option"

fun inject_tx :: "'t \<Rightarrow> 't token option list \<Rightarrow> 't token option list" where
  "inject_tx t [] = []"
| "inject_tx t (None # ks) = None # ks"
| "inject_tx t (Some k # ks) = Some (k\<lparr>tx := Some t\<rparr>) # inject_tx t ks"

fun delete_tx :: "'t token option list \<Rightarrow> 't token option list" where
  "delete_tx [] = []"
| "delete_tx (None # ks) = None # ks"
| "delete_tx (Some k # ks) = Some (k\<lparr>tx := None\<rparr>) # delete_tx ks"

text \<open>
  The tokens together with the deferred \<^verbatim>\<open>df\<close> of one \<^verbatim>\<open>runInTransaction\<close>: whether
  it has fired, and the callbacks waiting for that. \<^verbatim>\<open>addBoth\<close> on a deferred that has
  not fired queues the callback; firing runs the queue.
\<close>

record 't scope =
  keys :: "'t token option list"
  df_fired :: bool
  df_queue :: "('t token option list \<Rightarrow> 't token option list) list"

definition addBoth ::
  "('t token option list \<Rightarrow> 't token option list) \<Rightarrow> 't scope \<Rightarrow> 't scope" where
  "addBoth f s =
     (if df_fired s then s\<lparr>keys := f (keys s)\<rparr> else s\<lparr>df_queue := df_queue s @ [f]\<rparr>)"

definition fire :: "'t scope \<Rightarrow> 't scope" where
  "fire s =
     (if df_fired s then s
      else s\<lparr>keys := fold (\<lambda>f ks. f ks) (df_queue s) (keys s), df_fired := True, df_queue := []\<rparr>)"

text \<open>
  \<^verbatim>\<open>runInTransaction(trFn, scopes, mode, keys)\<close>, once the backend has run the
  transaction callback: \<^verbatim>\<open>df\<close> is created, the clean-up is attached with
  \<^verbatim>\<open>addBoth\<close>, \<^verbatim>\<open>df\<close> is returned; the callback then writes \<open>t\<close> into the tokens
  and runs \<^verbatim>\<open>trFn\<close>, the caller's code, which may work on the tokens. Nothing in the
  function calls \<^verbatim>\<open>df.callback\<close> or \<^verbatim>\<open>df.errback\<close>.
\<close>

definition runInTransaction ::
  "('t token option list \<Rightarrow> 't token option list) \<Rightarrow> 't token option list \<Rightarrow> 't \<Rightarrow> 't scope" where
  "runInTransaction trFn ks t =
     (let s = addBoth delete_tx \<lparr>keys = ks, df_fired = False, df_queue = []\<rparr>
      in s\<lparr>keys := trFn (inject_tx t (keys s))\<rparr>)"

section \<open>Creating the tables\<close>

text \<open>The column definitions \<^verbatim>\<open>prepareCreateTable\<close> appends for the index list.\<close>

fun index_columns :: "string option \<Rightarrow> index_schema list \<Rightarrow> string" where
  "index_columns kp [] = []"
| "index_columns kp (index # rest) =
     (if Some (index_name index) = kp then index_columns kp rest
      else '', '' @ index_name index @ (if index_unique index then '' UNIQUE '' else '' '') @
           type_sql (index_type index) @ index_columns kp rest)"

text \<open>
  \<^verbatim>\<open>prepareCreateTable(schema)\<close>: the statement, and the store schema as the call leaves
  it (\<^verbatim>\<open>schema.addIndex\<close> works on the catalog's own object).
\<close>

definition prepareCreateTable :: "store_schema \<Rightarrow> string \<times> store_schema" where
  "prepareCreateTable schema =
     (let schema' =
            (if \<not> hasIndex schema DEFAULT_BLOB_COLUMN then addIndex schema DEFAULT_BLOB_COLUMN
             else schema)
      in (''CREATE TABLE IF NOT EXISTS '' @ getQuotedName schema @ '' ('' @
            (case keyPath schema of
               Some kp \<Rightarrow> js_string (getQuotedKeyPath schema) @ '' TEXT UNIQUE PRIMARY KEY''
             | None \<Rightarrow> DEFAULT_KEY_COLUMN @ '' INTEGER PRIMARY KEY'') @
            index_columns (keyPath schema') (indexes schema') @ '');'',
          schema'))"

text \<open>
  \<^verbatim>\<open>migrate()\<close>: one statement per store, all in one transaction; the catalog as the
  calls of \<^verbatim>\<open>prepareCreateTable\<close> leave it, and the statements issued (each with no
  parameters).
\<close>

definition migrate :: "database_schema \<Rightarrow> database_schema \<times> string list" where
  "migrate schema =
     (schema\<lparr>stores := map (\<lambda>st. snd (prepareCreateTable st)) (stores schema)\<rparr>,
      map (\<lambda>st. fst (prepareCreateTable st)) (stores schema))"

text \<open>The constructor: \<^verbatim>\<open>if (this.db.version != this.schema.version) this.migrate()\<close>.\<close>

definition WebSql :: "string \<Rightarrow> database_schema \<Rightarrow> database_schema \<times> string list" where
  "WebSql db_version schema =
     (if db_version \<noteq> version schema then migrate schema else (schema, []))"

section \<open>An example catalog\<close>

text \<open>
  The store of the spec's scenario: ``note'' with key path ``id'' and one text index
  ``tag''; and a store ``log'' with no key path (a surrogate integer key).
\<close>

definition note_store :: store_schema where
  "note_store =
     \<lparr>store_name = ''note'', keyPath = Some ''id'',
      indexes = [\<lparr>index_name = ''tag'', index_type = TEXT, index_unique = False\<rparr>]\<rparr>"

definition log_store :: store_schema where
  "log_store =
     \<lparr>store_name = ''log'', keyPath = None,
      indexes = [\<lparr>index_name = ''tag'', index_type = TEXT, index_unique = False\<rparr>]\<rparr>"

definition note_schema :: database_schema where
  "note_schema = \<lparr>version = ''1'', schema_size = 1024, stores = [note_store, log_store]\<rparr>"

text \<open>
  An environment for the examples: a payload is kept as the object it serialises, and the
  numeric built-ins leave a value as it is.
\<close>

definition example_env :: "nat env" where
  "example_env =
     \<lparr>json_parse = (\<lambda>v. case v of Obj ob \<Rightarrow> Inr ob | _ \<Rightarrow> Inl SyntaxError),
      parseInt = (\<lambda>v. v),
      parseFloat = (\<lambda>v. v),
      to_string = (\<lambda>v. case v of Str s \<Rightarrow> s | _ \<Rightarrow> []),
      getIndexedValues = (\<lambda>st v.
        \<lparr>columns = [DEFAULT_BLOB_COLUMN], slots = [''?''], vals = [v], key_of = Undefined\<rparr>)\<rparr>"

text \<open>Three rows of the table of ``note'', and the records they decode to.\<close>

definition row_a :: "nat jsobj" where
  "row_a = [(''id'', Str ''a''), (''tag'', Str ''x''), (''_default_'', Obj [(''body'', Str ''hi'')])]"

definition row_b :: "nat jsobj" where
  "row_b = [(''id'', Str ''b''), (''tag'', Str ''y''), (''_default_'', Obj [(''body'', Str ''yo'')])]"

definition row_c :: "nat jsobj" where
  "row_c = [(''id'', Str ''c''), (''tag'', Str ''x''), (''_default_'', Obj [(''body'', Str ''ho'')])]"

definition note_a :: "nat jsobj" where
  "note_a = [(''body'', Str ''hi''), (''id'', Str ''a''), (''tag'', Str ''x'')]"

definition note_b :: "nat jsobj" where
  "note_b = [(''body'', Str ''yo''), (''id'', Str ''b''), (''tag'', Str ''y'')]"

definition note_c :: "nat jsobj" where
  "note_c = [(''body'', Str ''ho''), (''id'', Str ''c''), (''tag'', Str ''x'')]"

text \<open>A backend that answers every statement with the three rows.\<close>

definition three_rows :: "nat transaction" where
  "three_rows call = Inr [row_a, row_b, row_c]"

text \<open>A predicate on records: the tag is ``x''.\<close>

definition tag_is_x :: "nat jsval \<Rightarrow> bool" where
  "tag_is_x v = (case v of Obj ob \<Rightarrow> (case get_prop ob ''tag'' of Str s \<Rightarrow> s = ''x'' | _ \<Rightarrow> False) | _ \<Rightarrow> False)"

text \<open>A query that goes on while the tag is ``x'', with no filter.\<close>

definition while_x :: "nat query" where
  "while_x =
     \<lparr>q_store = ''note'', q_keyRange = None, q_continue = Some tag_is_x, q_filter = None,
      q_map = None, q_reduce = None\<rparr>"





text \<open>A backend that finds no row.\<close>

definition no_rows :: "nat transaction" where
  "no_rows call = Inr []"

text \<open>
  A row of the table of ``log'': the surrogate key column, the index column and the
  payload of the record \<^verbatim>\<open>{tag: "x", body: "hi"}\<close>.
\<close>

definition log_row :: "nat jsobj" where
  "log_row = [(''_id_'', Num 1), (''tag'', Str ''x''),
     (''_default_'', Obj [(''tag'', Str ''x''), (''body'', Str ''hi'')])]"

text \<open>A row of the table of ``note'' whose key column holds a number.\<close>

definition row_num :: "nat jsobj" where
  "row_num = [(''id'', Num 5), (''tag'', Str ''x''), (''_default_'', Obj [(''body'', Str ''hi'')])]"

text \<open>
  The property names of the schema object that \<^verbatim>\<open>websql.js\<close> reads:
  \<^verbatim>\<open>this.schema.version\<close>, \<^verbatim>\<open>this.schema.size\<close> and \<^verbatim>\<open>this.schema.stores\<close>.
\<close>

definition note_schema_props :: "string list" where
  "note_schema_props = [''version'', ''size'', ''stores'']"

text \<open>Two scope tokens with no transaction, and a transaction body that does nothing.\<close>

definition token_a :: "nat token" where
  "token_a = \<lparr>token_name = ''a'', tx = None\<rparr>"

definition token_b :: "nat token" where
  "token_b = \<lparr>token_name = ''b'', tx = None\<rparr>"

definition no_op :: "nat token option list \<Rightarrow> nat token option list" where
  "no_op ks = ks"

text \<open>
  The empty table of ``log'' as the backend answers for it. Its columns are those of the
  statement of \<^verbatim>\<open>prepareCreateTable\<close>: the surrogate key column, ``tag'' and the
  payload column. A select of all rows, or of the rows with a value in one of these
  columns, finds no row; the select of \<^verbatim>\<open>executeGet_\<close> names the column
  \<^verbatim>\<open>undefined\<close>, which the table does not have, and the backend reports that.
\<close>

definition empty_log_table :: "nat transaction" where
  "empty_log_table call =
     (if fst call = ''SELECT * FROM '' @ getQuotedName log_store then Inr []
      else if fst call \<in> set (map (\<lambda>col. ''SELECT * FROM '' @ getQuotedName log_store @
                 '' WHERE '' @ col @ '' = ?'') [''_id_'', ''tag'', ''_default_''])
      then Inr []
      else Inl (SQLError ''no such column: undefined''))"

text \<open>
  A store with no key path that declares an index named ``undefined'', and a row of its
  table.
\<close>

definition odd_store :: store_schema where
  "odd_store =
     \<lparr>store_name = ''odd'', keyPath = None,
      indexes = [\<lparr>index_name = ''undefined'', index_type = TEXT, index_unique = False\<rparr>]\<rparr>"

definition odd_row :: "nat jsobj" where
  "odd_row = [(''_id_'', Num 1), (''undefined'', Str ''k''),
     (''_default_'', Obj [(''body'', Str ''hi'')])]"

text \<open>A row of ``note'' whose payload column does not hold a serialised record.\<close>

definition row_bad :: "nat jsobj" where
  "row_bad = [(''id'', Str ''a''), (''tag'', Str ''x''), (''_default_'', Str ''oops'')]"

section \<open>Facts about the examples and the scan\<close>

lemma parse_a: "parseRow example_env note_store row_a = Inr note_a"
  by (simp add: parseRow_def example_env_def note_store_def row_a_def note_a_def get_prop_def
      DEFAULT_BLOB_COLUMN_def js_string_def setKey_def set_prop_def)

lemma parse_b: "parseRow example_env note_store row_b = Inr note_b"
  by (simp add: parseRow_def example_env_def note_store_def row_b_def note_b_def get_prop_def
      DEFAULT_BLOB_COLUMN_def js_string_def setKey_def set_prop_def)

lemma parse_c: "parseRow example_env note_store row_c = Inr note_c"
  by (simp add: parseRow_def example_env_def note_store_def row_c_def note_c_def get_prop_def
      DEFAULT_BLOB_COLUMN_def js_string_def setKey_def set_prop_def)


lemma tags: "tag_is_x (Obj note_a)" "\<not> tag_is_x (Obj note_b)" "tag_is_x (Obj note_c)"
  by (simp_all add: tag_is_x_def note_a_def note_b_def note_c_def get_prop_def)


lemma scan_stops_after:
  "j < length rows \<Longrightarrow>
   (\<forall>i<j. \<exists>v. parseRow E st (rows ! i) = Inr v \<and> goes_on q limit (k + i) (Obj v)) \<Longrightarrow>
   parseRow E st (rows ! j) = Inr v \<Longrightarrow>
   \<not> goes_on q limit (k + j) (Obj v) \<Longrightarrow>
   scan E st q limit rows k r =
     (case scan E st q limit (take j rows) k r of
        Inl e \<Rightarrow> Inl e
      | Inr r' \<Rightarrow> Inr (collect q r' (k + j) (Obj v)))"
proof (induction rows arbitrary: j k r)
  case Nil
  then show ?case by simp
next
  case (Cons row rows)
  show ?case
  proof (cases j)
    case 0
    with Cons.prems show ?thesis by simp
  next
    case (Suc j')
    from Cons.prems(2) Suc obtain v0 where
      v0: "parseRow E st row = Inr v0" "goes_on q limit k (Obj v0)"
      by fastforce
    have rest: "\<forall>i<j'. \<exists>v. parseRow E st (rows ! i) = Inr v \<and> goes_on q limit (Suc k + i) (Obj v)"
    proof (intro allI impI)
      fix i assume "i < j'"
      then have "Suc i < j" using Suc by simp
      with Cons.prems(2) show "\<exists>v. parseRow E st (rows ! i) = Inr v \<and> goes_on q limit (Suc k + i) (Obj v)"
        by fastforce
    qed
    have "scan E st q limit rows (Suc k) (collect q r k (Obj v0)) =
      (case scan E st q limit (take j' rows) (Suc k) (collect q r k (Obj v0)) of
        Inl e \<Rightarrow> Inl e
      | Inr r' \<Rightarrow> Inr (collect q r' (Suc k + j') (Obj v)))"
      using Cons.IH [of j' "Suc k" "collect q r k (Obj v0)"] Cons.prems Suc rest by simp
    then show ?thesis using v0 Suc by (simp cong: sum.case_cong)
  qed
qed

lemma scan_all_go_on:
  "length vs = length rows \<Longrightarrow>
   map (parseRow E st) rows = map Inr vs \<Longrightarrow>
   (\<forall>i<length rows. goes_on q limit (k + i) (Obj (vs ! i))) \<Longrightarrow>
   q_filter q = None \<Longrightarrow> q_reduce q = None \<Longrightarrow>
   scan E st q limit rows k (Arr acc) =
     Inr (Arr (acc @ map (\<lambda>v. case q_map q of None \<Rightarrow> Obj v | Some m \<Rightarrow> m (Obj v)) vs))"
proof (induction rows arbitrary: vs k acc)
  case Nil
  then show ?case by simp
next
  case (Cons row rows)
  then obtain v vs' where vs: "vs = v # vs'" by (cases vs) auto
  have go: "goes_on q limit k (Obj v)" using Cons.prems(3) vs by fastforce
  have rest: "\<forall>i<length rows. goes_on q limit (Suc k + i) (Obj (vs' ! i))"
  proof (intro allI impI)
    fix i assume "i < length rows"
    then have "Suc i < length (row # rows)" by simp
    with Cons.prems(3) have "goes_on q limit (k + Suc i) (Obj (vs ! Suc i))" by blast
    then show "goes_on q limit (Suc k + i) (Obj (vs' ! i))" using vs by simp
  qed
  have "scan E st q limit rows (Suc k) (Arr (acc @ [case q_map q of None \<Rightarrow> Obj v | Some m \<Rightarrow> m (Obj v)])) =
     Inr (Arr ((acc @ [case q_map q of None \<Rightarrow> Obj v | Some m \<Rightarrow> m (Obj v)]) @
        map (\<lambda>v. case q_map q of None \<Rightarrow> Obj v | Some m \<Rightarrow> m (Obj v)) vs'))"
    using Cons.IH [of vs' "Suc k"] Cons.prems vs rest by simp
  then show ?case using Cons.prems vs go by (simp add: collect_def push_def)
qed



section \<open>The scan boundary of a fetch\<close>

text \<open>
  C1, as amended. For a fetch of a query with a continuation predicate, no filter and no
  reduce, over a declared store, where the backend returns rows whose first \<open>N + 1\<close>
  decode, the predicate holds of the rows before index \<open>N\<close> and fails at index \<open>N\<close>,
  and a supplied limit is greater than \<open>N\<close>: the deferred resolves with exactly
  \<open>N + 1\<close> elements, the (mapped) records of the rows \<open>0..N\<close>. The row at which the
  predicate first returns false is still appended; the scan stops after it.
\<close>

theorem fetch_continuation_boundary:
  assumes st: "getStore schema (q_store q) = Some st"
    and rows: "t (fetch_sql st q) = Inr rows"
    and c: "q_continue q = Some c"
    and nofilter: "q_filter q = None"
    and noreduce: "q_reduce q = None"
    and N: "N < length rows"
    and dec: "map (parseRow E st) (take (Suc N) rows) = map Inr vs"
    and before: "\<forall>i<N. c (Obj (vs ! i))"
    and at: "\<not> c (Obj (vs ! N))"
    and lim: "case limit of None \<Rightarrow> True | Some l \<Rightarrow> int N < l"
  shows "fst (fetch E schema t q limit offset) =
           Return (Resolved (Arr (map (\<lambda>v. case q_map q of None \<Rightarrow> Obj v | Some m \<Rightarrow> m (Obj v)) vs)))
         \<and> length vs = Suc N"
proof -
  let ?g = "\<lambda>v. case q_map q of None \<Rightarrow> Obj v | Some m \<Rightarrow> m (Obj v)"
  have len: "length vs = Suc N"
    using arg_cong [OF dec, of length] N by simp
  have nth: "parseRow E st (rows ! i) = Inr (vs ! i)" if "i \<le> N" for i
  proof -
    have "map (parseRow E st) (take (Suc N) rows) ! i = map Inr vs ! i" using dec by simp
    then show ?thesis using that N len by simp
  qed
  have go: "goes_on q limit i (Obj (vs ! i))" if "i < N" for i
    using that before c lim by (auto simp: goes_on_def split: option.splits)
  have stop: "\<not> goes_on q limit N (Obj (vs ! N))"
    using at c by (simp add: goes_on_def)
  have pre: "scan E st q limit (take N rows) 0 (Arr []) = Inr (Arr ([] @ map ?g (take N vs)))"
  proof (rule scan_all_go_on)
    show "length (take N vs) = length (take N rows)" using len N by simp
    show "map (parseRow E st) (take N rows) = map Inr (take N vs)"
      using arg_cong [OF dec, of "take N"] by (simp add: take_map)
    show "\<forall>i<length (take N rows). goes_on q limit (0 + i) (Obj (take N vs ! i))"
      using go by simp
  qed (rule nofilter, rule noreduce)
  have "scan E st q limit rows 0 (Arr []) =
      (case scan E st q limit (take N rows) 0 (Arr []) of
         Inl e \<Rightarrow> Inl e
       | Inr r' \<Rightarrow> Inr (collect q r' (0 + N) (Obj (vs ! N))))"
  proof (rule scan_stops_after [OF N])
    show "\<forall>i<N. \<exists>v. parseRow E st (rows ! i) = Inr v \<and> goes_on q limit (0 + i) (Obj v)"
      using nth go by simp
    show "parseRow E st (rows ! N) = Inr (vs ! N)" using nth by simp
    show "\<not> goes_on q limit (0 + N) (Obj (vs ! N))" using stop by simp
  qed
  also have "\<dots> = Inr (Arr (map ?g (take N vs) @ [?g (vs ! N)]))"
    using pre nofilter noreduce by (simp add: collect_def push_def)
  also have "map ?g (take N vs) @ [?g (vs ! N)] = map ?g vs"
  proof -
    have "vs = take N vs @ [vs ! N]"
      using len take_Suc_conv_app_nth [of N vs] by simp
    then have "map ?g vs = map ?g (take N vs @ [vs ! N])" by simp
    then show ?thesis by simp
  qed
  finally have "fetch_callback E st q limit rows = Inr (Arr (map ?g vs))"
    using noreduce by (simp add: fetch_callback_def)
  then show ?thesis
    using st rows len by (simp add: fetch_def callback_def)
qed

theorem fetch_continuation_boundary_witness:
  "fst (fetch example_env note_schema three_rows while_x (Some 5) None) =
     Return (Resolved (Arr [Obj note_a, Obj note_b]))
   \<and> length [note_a, note_b] = Suc 1"
proof -
  have h1: "getStore note_schema (q_store while_x) = Some note_store"
    by (simp add: getStore_def note_schema_def while_x_def note_store_def)
  have h2: "three_rows (fetch_sql note_store while_x) = Inr [row_a, row_b, row_c]"
    by (simp add: three_rows_def)
  have h3: "q_continue while_x = Some tag_is_x" by (simp add: while_x_def)
  have h4: "q_filter while_x = None" by (simp add: while_x_def)
  have h5: "q_reduce while_x = None" by (simp add: while_x_def)
  have h6: "1 < length [row_a, row_b, row_c]" by simp
  have h7: "map (parseRow example_env note_store) (take (Suc 1) [row_a, row_b, row_c]) =
      map Inr [note_a, note_b]"
    by (simp add: parse_a parse_b)
  have h8: "\<forall>i<1. tag_is_x (Obj ([note_a, note_b] ! i))" by (simp add: tags)
  have h9: "\<not> tag_is_x (Obj ([note_a, note_b] ! 1))" by (simp add: tags)
  have h10: "case Some 5 of None \<Rightarrow> True | Some l \<Rightarrow> int 1 < l" by simp
  from fetch_continuation_boundary [where schema = note_schema and q = while_x
      and st = note_store and t = three_rows and rows = "[row_a, row_b, row_c]"
      and c = tag_is_x and N = 1 and E = example_env and vs = "[note_a, note_b]"
      and limit = "Some 5" and offset = None, OF h1 h2 h3 h4 h5 h6 h7 h8 h9 h10]
  show ?thesis by (simp add: while_x_def)
qed

text \<open>
  C1 as stated fails: the predicate of \<open>while_x\<close> first returns false at row index 1
  (the limit 5 is greater), and the result has two elements, not one.
\<close>

theorem fetch_continuation_counterexample:
  "q_continue while_x = Some tag_is_x \<and> q_filter while_x = None
   \<and> tag_is_x (Obj note_a) \<and> \<not> tag_is_x (Obj note_b)
   \<and> fst (fetch example_env note_schema three_rows while_x (Some 5) None) =
       Return (Resolved (Arr [Obj note_a, Obj note_b]))
   \<and> length [Obj note_a, Obj note_b] \<noteq> 1"
  by (simp add: tags fetch_def fetch_callback_def getStore_def note_schema_def note_store_def
      three_rows_def parse_a [unfolded note_store_def] parse_b [unfolded note_store_def]
      goes_on_def collect_def push_def callback_def while_x_def)



section \<open>The key of a decoded row\<close>

text \<open>
  C10, as amended. \<^verbatim>\<open>parseRow\<close> reads the key from \<^verbatim>\<open>row[table.keyPath]\<close>: the
  column named by the declared key path, or, for a store with no declared key path, the
  property named \<^verbatim>\<open>undefined\<close>. It asserts that the value is a string. A record is
  returned only if the value read there is a string; if it is not, \<^verbatim>\<open>parseRow\<close> fails,
  with the assertion's failure once the payload has parsed, and with the error of the
  parse otherwise (the payload is parsed first). So for a store with no declared key path
  the assertion fails on every row that has no column named \<^verbatim>\<open>undefined\<close>, for a store
  with a key path it fails on every row whose key column holds no string, and a row of a
  store with no key path that has a column named \<^verbatim>\<open>undefined\<close> holding a string
  decodes.
\<close>

theorem parseRow_reads_key_path_property:
  "(parseRow E table row = Inr v
      \<longrightarrow> (\<exists>s. get_prop row (js_string (keyPath table)) = Str s))
   \<and> ((\<forall>s. get_prop row (js_string (keyPath table)) \<noteq> Str s)
        \<and> json_parse E (get_prop row DEFAULT_BLOB_COLUMN) = Inr payload
      \<longrightarrow> parseRow E table row = Inl AssertionError)
   \<and> (json_parse E (get_prop row DEFAULT_BLOB_COLUMN) = Inl e
      \<longrightarrow> parseRow E table row = Inl e)
   \<and> (keyPath table = None \<and> map_of row ''undefined'' = None
        \<and> json_parse E (get_prop row DEFAULT_BLOB_COLUMN) = Inr payload
      \<longrightarrow> parseRow E table row = Inl AssertionError)
   \<and> (keyPath table = Some kp \<and> (\<forall>s. get_prop row kp \<noteq> Str s)
        \<and> json_parse E (get_prop row DEFAULT_BLOB_COLUMN) = Inr payload
      \<longrightarrow> parseRow E table row = Inl AssertionError)
   \<and> (keyPath table = None \<and> map_of row ''undefined'' = Some (Str k)
        \<and> json_parse E (get_prop row DEFAULT_BLOB_COLUMN) = Inr payload
      \<longrightarrow> (\<exists>r. parseRow E table row = Inr r))"
proof -
  have undef: "get_prop row ''undefined'' = Undefined" if "map_of row ''undefined'' = None"
    using that by (simp add: get_prop_def object_prototype_def)
  have found: "get_prop row ''undefined'' = Str k" if "map_of row ''undefined'' = Some (Str k)"
    using that by (simp add: get_prop_def)
  have c1: "parseRow E table row = Inr v
      \<longrightarrow> (\<exists>s. get_prop row (js_string (keyPath table)) = Str s)"
    by (simp add: parseRow_def split: sum.splits jsval.splits)
  have c2: "(\<forall>s. get_prop row (js_string (keyPath table)) \<noteq> Str s)
        \<and> json_parse E (get_prop row DEFAULT_BLOB_COLUMN) = Inr payload
      \<longrightarrow> parseRow E table row = Inl AssertionError"
    by (simp add: parseRow_def split: jsval.splits)
  have c3: "json_parse E (get_prop row DEFAULT_BLOB_COLUMN) = Inl e
      \<longrightarrow> parseRow E table row = Inl e"
    by (simp add: parseRow_def)
  have c4: "keyPath table = None \<and> map_of row ''undefined'' = None
        \<and> json_parse E (get_prop row DEFAULT_BLOB_COLUMN) = Inr payload
      \<longrightarrow> parseRow E table row = Inl AssertionError"
    using undef by (simp add: parseRow_def js_string_def)
  have c5: "keyPath table = Some kp \<and> (\<forall>s. get_prop row kp \<noteq> Str s)
        \<and> json_parse E (get_prop row DEFAULT_BLOB_COLUMN) = Inr payload
      \<longrightarrow> parseRow E table row = Inl AssertionError"
    using c2 by (simp add: js_string_def)
  have c6: "keyPath table = None \<and> map_of row ''undefined'' = Some (Str k)
        \<and> json_parse E (get_prop row DEFAULT_BLOB_COLUMN) = Inr payload
      \<longrightarrow> (\<exists>r. parseRow E table row = Inr r)"
    using found by (simp add: parseRow_def js_string_def)
  from c1 c2 c3 c4 c5 c6 show ?thesis by blast
qed

theorem parseRow_reads_key_path_property_witness:
  "(\<exists>s. get_prop row_a (js_string (keyPath note_store)) = Str s)
   \<and> parseRow example_env note_store row_num = Inl AssertionError
   \<and> parseRow example_env note_store row_bad = Inl SyntaxError
   \<and> parseRow example_env log_store log_row = Inl AssertionError
   \<and> (\<exists>r. parseRow example_env odd_store odd_row = Inr r)"
proof -
  have p_num: "json_parse example_env (get_prop row_num DEFAULT_BLOB_COLUMN) =
      Inr [(''body'', Str ''hi'')]"
    by (simp add: example_env_def row_num_def get_prop_def DEFAULT_BLOB_COLUMN_def)
  have k_num: "\<forall>s. get_prop row_num (js_string (keyPath note_store)) \<noteq> Str s"
    by (simp add: row_num_def note_store_def get_prop_def js_string_def)
  have p_bad: "json_parse example_env (get_prop row_bad DEFAULT_BLOB_COLUMN) = Inl SyntaxError"
    by (simp add: example_env_def row_bad_def get_prop_def DEFAULT_BLOB_COLUMN_def)
  have p_log: "json_parse example_env (get_prop log_row DEFAULT_BLOB_COLUMN) =
      Inr [(''tag'', Str ''x''), (''body'', Str ''hi'')]"
    by (simp add: example_env_def log_row_def get_prop_def DEFAULT_BLOB_COLUMN_def)
  have k_log: "keyPath log_store = None" "map_of log_row ''undefined'' = None"
    by (simp_all add: log_store_def log_row_def)
  have p_odd: "json_parse example_env (get_prop odd_row DEFAULT_BLOB_COLUMN) =
      Inr [(''body'', Str ''hi'')]"
    by (simp add: example_env_def odd_row_def get_prop_def DEFAULT_BLOB_COLUMN_def)
  have k_odd: "keyPath odd_store = None" "map_of odd_row ''undefined'' = Some (Str ''k'')"
    by (simp_all add: odd_store_def odd_row_def)
  have a: "\<exists>s. get_prop row_a (js_string (keyPath note_store)) = Str s"
    using parseRow_reads_key_path_property [where E = example_env and table = note_store
        and row = row_a and v = note_a]
      parse_a by blast
  have b: "parseRow example_env note_store row_num = Inl AssertionError"
    using parseRow_reads_key_path_property [where E = example_env and table = note_store
        and row = row_num and payload = "[(''body'', Str ''hi'')]"]
      p_num k_num by blast
  have c: "parseRow example_env note_store row_bad = Inl SyntaxError"
    using parseRow_reads_key_path_property [where E = example_env and table = note_store
        and row = row_bad and e = SyntaxError]
      p_bad by blast
  have d: "parseRow example_env log_store log_row = Inl AssertionError"
    using parseRow_reads_key_path_property [where E = example_env and table = log_store
        and row = log_row and payload = "[(''tag'', Str ''x''), (''body'', Str ''hi'')]"]
      p_log k_log by blast
  have e: "\<exists>r. parseRow example_env odd_store odd_row = Inr r"
    using parseRow_reads_key_path_property [where E = example_env and table = odd_store
        and row = odd_row and payload = "[(''body'', Str ''hi'')]" and k = "''k''"]
      p_odd k_odd by blast
  from a b c d e show ?thesis by simp
qed

text \<open>
  C10 as stated fails: the store ``odd'' has no declared key path, and its row decodes,
  because the row has a column named \<^verbatim>\<open>undefined\<close> that holds a string.
\<close>

theorem parseRow_keyless_counterexample:
  "keyPath odd_store = None
   \<and> parseRow example_env odd_store odd_row =
       Inr [(''body'', Str ''hi''), (''undefined'', Str ''k'')]"
  by (simp add: parseRow_def example_env_def odd_store_def odd_row_def get_prop_def
      DEFAULT_BLOB_COLUMN_def js_string_def setKey_def set_prop_def)

section \<open>What table creation does to the catalog\<close>

text \<open>
  C9, as amended. \<^verbatim>\<open>prepareCreateTable\<close>, which \<^verbatim>\<open>migrate\<close> runs for every store,
  changes the catalog in one way only: a store that does not declare the payload column
  gets an index entry of that name appended to its index list. The store's name, its key
  path and its existing index entries stay as they are, a store that declares the payload
  column is left as it is, and a second call changes nothing more.
\<close>

theorem prepareCreateTable_adds_payload_index:
  "store_name (snd (prepareCreateTable st)) = store_name st
   \<and> keyPath (snd (prepareCreateTable st)) = keyPath st
   \<and> take (length (indexes st)) (indexes (snd (prepareCreateTable st))) = indexes st
   \<and> map index_name (indexes (snd (prepareCreateTable st))) =
       (if hasIndex st DEFAULT_BLOB_COLUMN then map index_name (indexes st)
        else map index_name (indexes st) @ [DEFAULT_BLOB_COLUMN])
   \<and> snd (prepareCreateTable (snd (prepareCreateTable st))) = snd (prepareCreateTable st)"
proof (cases "hasIndex st DEFAULT_BLOB_COLUMN")
  case True
  then show ?thesis by (simp add: prepareCreateTable_def Let_def)
next
  case False
  have added: "hasIndex (addIndex st DEFAULT_BLOB_COLUMN) DEFAULT_BLOB_COLUMN"
    by (auto simp: hasIndex_def addIndex_def find_None_iff)
  have first: "snd (prepareCreateTable st) = addIndex st DEFAULT_BLOB_COLUMN"
    using False by (simp add: prepareCreateTable_def Let_def)
  have again: "snd (prepareCreateTable (addIndex st DEFAULT_BLOB_COLUMN)) =
      addIndex st DEFAULT_BLOB_COLUMN"
    using added by (simp add: prepareCreateTable_def Let_def)
  show ?thesis
    using False first again by (simp add: addIndex_def)
qed

text \<open>
  C9 as stated fails: after \<^verbatim>\<open>prepareCreateTable\<close> the index list of the store
  ``note'' is not the list it was.
\<close>

theorem prepareCreateTable_counterexample:
  "indexes (snd (prepareCreateTable note_store)) \<noteq> indexes note_store"
  by (simp add: prepareCreateTable_def note_store_def hasIndex_def addIndex_def
      DEFAULT_BLOB_COLUMN_def Let_def)

section \<open>Where the code departs from its contract\<close>

lemma runInTransaction_never_fires:
  "df_fired (runInTransaction trFn ks t) = False
   \<and> keys (runInTransaction trFn ks t) = trFn (inject_tx t ks)
   \<and> df_queue (runInTransaction trFn ks t) = [delete_tx]"
  by (simp add: runInTransaction_def addBoth_def Let_def)

text \<open>
  C2 on the code. \<^verbatim>\<open>runInTransaction\<close> over two tokens and a transaction body that
  does nothing: after the transaction callback has run, both tokens hold the transaction
  and the deferred has not fired, so the clean-up attached with \<^verbatim>\<open>addBoth\<close> has not
  run. Firing the deferred would run it; nothing in the function does.
\<close>

theorem runInTransaction_leaves_tx:
  "keys (runInTransaction no_op [Some token_a, Some token_b] 7) =
     [Some (token_a\<lparr>tx := Some 7\<rparr>), Some (token_b\<lparr>tx := Some 7\<rparr>)]
   \<and> df_fired (runInTransaction no_op [Some token_a, Some token_b] 7) = False
   \<and> keys (fire (runInTransaction no_op [Some token_a, Some token_b] 7)) =
     [Some token_a, Some token_b]"
  by (simp add: runInTransaction_def addBoth_def fire_def no_op_def token_a_def token_b_def Let_def)

lemma clear_each_not_a_store:
  "p \<in> set props \<Longrightarrow> getStore schema p = None \<Longrightarrow>
   fst (clear_each schema t props) = Inl AssertionError"
proof (induction props)
  case Nil
  then show ?case by simp
next
  case (Cons a props)
  show ?case
  proof (cases "getStore schema a")
    case None
    then show ?thesis by (simp add: clear_private_def)
  next
    case (Some st)
    with Cons.prems have "p \<in> set props" by auto
    with Cons have "fst (clear_each schema t props) = Inl AssertionError" by simp
    with Some show ?thesis
      by (cases "clear_each schema t props") (simp add: clear_private_def)
  qed
qed

text \<open>
  C3 on the code. \<^verbatim>\<open>clear()\<close> with no store walks the property names of the schema
  object, not the declared stores: on the catalog with the stores ``note'' and ``log''
  the first name is \<^verbatim>\<open>version\<close>, which is no store, the assertion of \<^verbatim>\<open>clear_\<close>
  throws, and no delete statement is issued.
\<close>

theorem clear_all_throws:
  "clear note_schema note_schema_props three_rows None Undefined = (Raise AssertionError, [])"
  by (simp add: clear_def note_schema_props_def clear_private_def getStore_def note_schema_def
      note_store_def log_store_def)

lemma getInTransaction_declared_store:
  "getStore schema store = Some st \<Longrightarrow>
   getInTransaction E schema t store key =
     (Return (case t (get_sql st key) of
                Inl e \<Rightarrow> Rejected e
              | Inr rows \<Rightarrow>
                  (case get_callback E st key rows of
                     Inl ex \<Rightarrow> Pending
                   | Inr v \<Rightarrow> Resolved v)),
      [get_sql st key])"
  by (simp add: getInTransaction_def executeGet_def errback_def callback_def
      split: sum.splits)

lemma putInTransaction_single_record:
  "getStore schema store = Some st \<Longrightarrow>
   putInTransaction E schema t store (Obj r) =
     (Return (case t (put_sql st (getIndexedValues E st (Obj r))) of
                Inl e \<Rightarrow> Rejected e
              | Inr rows \<Rightarrow> Resolved (key_of (getIndexedValues E st (Obj r)))),
      [put_sql st (getIndexedValues E st (Obj r))])"
  by (simp add: putInTransaction_def executePut_def errback_def callback_def
      split: sum.splits)

text \<open>
  C4 on the code. \<^verbatim>\<open>clearInTransaction\<close> has an empty body: it returns
  \<^verbatim>\<open>undefined\<close>, not a deferred, and issues no statement.
\<close>

theorem clearInTransaction_does_nothing:
  "clearInTransaction three_rows ''note'' (Str ''a'') = (ReturnUndefined, [])"
  by (simp add: clearInTransaction_def)

text \<open>
  C5 on the code. The row that the table of a store with no key path holds for the record
  \<^verbatim>\<open>{tag: "x", body: "hi"}\<close> does not decode: \<^verbatim>\<open>parseRow\<close> reads
  \<^verbatim>\<open>row[table.keyPath]\<close>, not the surrogate key column, and its assertion fails.
\<close>

theorem parseRow_surrogate_key_fails:
  "parseRow example_env log_store log_row = Inl AssertionError"
  by (simp add: parseRow_def example_env_def log_store_def log_row_def get_prop_def
      DEFAULT_BLOB_COLUMN_def js_string_def)

lemma get_empty_result_set:
  assumes "getStore schema store = Some st"
    and "t (get_sql st key) = Inr []"
  shows "get E schema t (StoreArg store) key =
    (Return (Resolved (if key = Undefined then Arr [] else Undefined)), [get_sql st key])"
  using assms
  by (simp add: get_def get_by_name_def executeGet_def get_callback_def callback_def)

lemma get_all_of_empty_log:
  "get example_env note_schema empty_log_table (StoreArg ''log'') Undefined =
     (Return (Resolved (Arr [])), [get_sql log_store Undefined])"
proof -
  have h1: "getStore note_schema ''log'' = Some log_store"
    by (simp add: getStore_def note_schema_def note_store_def log_store_def)
  have h2: "empty_log_table (get_sql log_store Undefined) = Inr []"
    by (simp add: empty_log_table_def get_sql_def)
  from get_empty_result_set [where E = example_env and t = empty_log_table, OF h1 h2]
  show ?thesis by simp
qed

text \<open>
  C8 on the code. For the store ``log'', which has no key path, \<^verbatim>\<open>get(store, key)\<close>
  with a key that matches no row does not resolve with \<^verbatim>\<open>undefined\<close>:
  \<^verbatim>\<open>executeGet_\<close> builds the statement from \<^verbatim>\<open>table.getQuotedKeyPath()\<close> alone, so the
  statement names the column \<^verbatim>\<open>undefined\<close>, the backend reports that the table has no
  such column, and the deferred is rejected. With the surrogate key column in its place
  the same table answers with no row.
\<close>

theorem get_keyless_store_rejects:
  "fst (get_sql log_store (Num 5)) =
     ''SELECT * FROM '' @ getQuotedName log_store @ '' WHERE undefined = ?''
   \<and> get example_env note_schema empty_log_table (StoreArg ''log'') (Num 5) =
       (Return (Rejected (SQLError ''no such column: undefined'')), [get_sql log_store (Num 5)])
   \<and> empty_log_table
       (''SELECT * FROM '' @ getQuotedName log_store @ '' WHERE '' @ DEFAULT_KEY_COLUMN @ '' = ?'',
        [Num 5]) = Inr []"
  by (simp add: get_def get_by_name_def executeGet_def getStore_def note_schema_def
      note_store_def log_store_def get_sql_def getQuotedKeyPath_def js_string_def
      empty_log_table_def getQuotedName_def quote_def DEFAULT_KEY_COLUMN_def errback_def)

lemma put_absent_store:
  "getStore schema store = None \<Longrightarrow>
   put E schema t store obj = (Return (Rejected (TableNotFound store)), [])"
  by (simp add: put_def executePut_def errback_def)

lemma putInTransaction_absent_store:
  "getStore schema store = None \<Longrightarrow>
   putInTransaction E schema t store obj = (Return (Rejected (TableNotFound store)), [])"
  by (simp add: putInTransaction_def executePut_def errback_def)

lemma get_absent_store:
  "getStore schema store = None \<Longrightarrow>
   get E schema t (StoreArg store) key = (Return (Rejected (TableNotFound store)), [])"
  by (simp add: get_def get_by_name_def executeGet_def errback_def)

lemma getInTransaction_absent_store:
  "getStore schema store = None \<Longrightarrow>
   getInTransaction E schema t store key = (Raise TypeError, [])"
  by (simp add: getInTransaction_def executeGet_def)

text \<open>
  C7 on the code. \<^verbatim>\<open>put\<close>, \<^verbatim>\<open>putInTransaction\<close> and \<^verbatim>\<open>get\<close> hand back a deferred
  rejected with the store's error and issue no statement. \<^verbatim>\<open>getInTransaction\<close> does
  not: \<^verbatim>\<open>executeGet_\<close> calls the errback and, with no \<^verbatim>\<open>return\<close>, goes on to
  \<^verbatim>\<open>table.getQuotedName()\<close>, whose \<^verbatim>\<open>TypeError\<close> reaches the caller in place of the
  deferred.
\<close>

theorem getInTransaction_absent_store_throws:
  "getInTransaction example_env note_schema three_rows ''nosuch'' (Str ''a'') = (Raise TypeError, [])"
  by (simp add: getInTransaction_def executeGet_def getStore_def note_schema_def
      note_store_def log_store_def)

end
